theory Spec2Isabelle
  imports Complex_Main
begin

section \<open>Data model (src/workflows/state.py)\<close>

text \<open>
  The two enumerations of \<^verbatim>\<open>state.py\<close>.  \<open>DocumentType_value\<close> gives the string each
  member of \<^verbatim>\<open>DocumentType\<close> carries.
\<close>

datatype DocumentType =
    PRIVACY_POLICY | CONSENT_FORM | CONTRACT_CLAUSE | COMMITTEE_MINUTES
  | CODE_OF_CONDUCT | DATA_PROCESSING_AGREEMENT | BREACH_NOTIFICATION | IMPACT_ASSESSMENT

fun DocumentType_value :: "DocumentType \<Rightarrow> string" where
  "DocumentType_value PRIVACY_POLICY = ''politica_privacidade''"
| "DocumentType_value CONSENT_FORM = ''termo_consentimento''"
| "DocumentType_value CONTRACT_CLAUSE = ''clausula_contratual''"
| "DocumentType_value COMMITTEE_MINUTES = ''ata_comite''"
| "DocumentType_value CODE_OF_CONDUCT = ''codigo_conduta''"
| "DocumentType_value DATA_PROCESSING_AGREEMENT = ''acordo_tratamento_dados''"
| "DocumentType_value BREACH_NOTIFICATION = ''notificacao_violacao''"
| "DocumentType_value IMPACT_ASSESSMENT = ''avaliacao_impacto''"

definition DocumentType_members :: "DocumentType list" where
  "DocumentType_members =
     [PRIVACY_POLICY, CONSENT_FORM, CONTRACT_CLAUSE, COMMITTEE_MINUTES,
      CODE_OF_CONDUCT, DATA_PROCESSING_AGREEMENT, BREACH_NOTIFICATION, IMPACT_ASSESSMENT]"

datatype ProcessingStatus =
    PENDING | PROCESSING | OCR_COMPLETE | CLASSIFIED | RESEARCHED | STRUCTURED | GENERATED
  | QUALITY_CHECKED | COMPLIANCE_VALIDATED | HUMAN_REVIEW | APPROVED | REJECTED | ERROR

text \<open>
  \<^verbatim>\<open>DocumentState\<close> is a \<^verbatim>\<open>TypedDict\<close>: at run time an ordinary Python dictionary from
  key strings to values of any type, in which a key may be absent.  It is modelled as a
  partial map into a universe of the Python values that occur in it.  Python floats are
  idealised as real numbers (no rounding, no NaN); a \<^verbatim>\<open>datetime\<close> is a clock reading.
\<close>

datatype pyval =
    PyNone
  | PyBool bool
  | PyInt int
  | PyFloat real
  | PyStr string
  | PyBytes "nat list"
  | PyTime nat
  | PyStatus ProcessingStatus
  | PyDocType DocumentType
  | PyList "pyval list"
  | PyDict "(string \<times> pyval) list"

type_synonym DocumentState = "string \<rightharpoonup> pyval"

text \<open>
  The keys that the \<^verbatim>\<open>DocumentState\<close> declaration types as \<^verbatim>\<open>List[...]\<close> or
  \<^verbatim>\<open>Dict[...]\<close> (state.py, lines 30 to 110), in declaration order.
\<close>

definition DocumentState_collection_fields :: "string list" where
  "DocumentState_collection_fields =
     [''processing_log'', ''error_messages'', ''extracted_data'', ''applicable_laws'',
      ''legal_basis'', ''regulatory_requirements'', ''compliance_gaps'', ''required_sections'',
      ''content_sections'', ''legal_clauses'', ''quality_issues'', ''quality_checklist'',
      ''compliance_issues'', ''compliance_checklist'', ''regulatory_validation'',
      ''agent_performance'', ''data_processing_activities'']"

text \<open>An empty Python container: \<^verbatim>\<open>[]\<close> or \<^verbatim>\<open>{}\<close>.\<close>

fun empty_container :: "pyval \<Rightarrow> bool" where
  "empty_container (PyList xs) = (xs = [])"
| "empty_container (PyDict kvs) = (kvs = [])"
| "empty_container _ = False"

section \<open>Exceptions\<close>

text \<open>
  Every \<^verbatim>\<open>raise\<close> is a value: a function that can raise returns \<open>exn + 'a\<close>, with
  \<open>Inl\<close> the exception.  \<open>AttributeError c a\<close> is the failed lookup of attribute \<open>a\<close> on
  an object of class \<open>c\<close>; \<open>Exception m\<close> stands for any other exception, raised by an
  external library, with message \<open>m\<close>.  All of them derive from Python's
  \<^verbatim>\<open>Exception\<close>, so \<^verbatim>\<open>except Exception\<close> catches each.
\<close>

datatype exn =
    AttributeError string string
  | KeyError string
  | TypeError string
  | Exception string
  | GraphRecursionError string

text \<open>\<^verbatim>\<open>str(e)\<close>.\<close>

fun str_exn :: "exn \<Rightarrow> string" where
  "str_exn (AttributeError c a) =
     [CHR 0x27] @ c @ [CHR 0x27] @ '' object has no attribute '' @ [CHR 0x27] @ a @ [CHR 0x27]"
| "str_exn (KeyError k) = [CHR 0x27] @ k @ [CHR 0x27]"
| "str_exn (TypeError m) = m"
| "str_exn (Exception m) = m"
| "str_exn (GraphRecursionError m) = m"

section \<open>Creating the initial state (src/workflows/workflow.py, lines 41 to 97)\<close>

text \<open>
  \<^verbatim>\<open>create_initial_state\<close> draws identifiers from \<^verbatim>\<open>uuid.uuid4()\<close> and reads the clock
  twice.  These are inputs of the model: \<open>sources\<close> holds the values drawn, named by the
  place that receives them.
\<close>

record sources =
  uuid_workflow :: string
  uuid_session :: string
  uuid_document :: string
  now_created :: nat
  now_updated :: nat

definition default_context :: "sources \<Rightarrow> pyval" where
  "default_context src =
     PyDict [(''workflow_id'', PyStr (uuid_workflow src)),
             (''user_id'', PyNone),
             (''session_id'', PyStr (uuid_session src)),
             (''priority'', PyStr ''medium''),
             (''deadline'', PyNone),
             (''custom_requirements'', PyDict []),
             (''template_preferences'', PyDict []),
             (''quality_threshold'', PyFloat 0.8),
             (''compliance_level'', PyStr ''standard'')]"

definition opt_bytes :: "nat list option \<Rightarrow> pyval" where
  "opt_bytes b = (case b of None \<Rightarrow> PyNone | Some bs \<Rightarrow> PyBytes bs)"

text \<open>
  The function has no \<^verbatim>\<open>raise\<close> and no check of its arguments: its body is the
  construction of the dictionary, with exactly the keys below.
\<close>

definition create_initial_state ::
  "sources \<Rightarrow> string \<Rightarrow> string \<Rightarrow> string \<Rightarrow> nat list option \<Rightarrow> pyval option
     \<Rightarrow> exn + DocumentState" where
  "create_initial_state src document_type company_name activity_description uploaded_file context =
     (let context' = (case context of None \<Rightarrow> default_context src | Some c \<Rightarrow> c)
      in Inr (map_of
        [(''document_id'', PyStr (uuid_document src)),
         (''document_type'', PyStr document_type),
         (''company_name'', PyStr company_name),
         (''activity_description'', PyStr activity_description),
         (''industry_sector'', PyStr ''geral''),
         (''language'', PyStr ''pt-BR''),
         (''jurisdiction'', PyStr ''BR''),
         (''status'', PyStatus PENDING),
         (''created_at'', PyTime (now_created src)),
         (''updated_at'', PyTime (now_updated src)),
         (''context'', context'),
         (''uploaded_file'', opt_bytes uploaded_file),
         (''ocr_results'', PyDict []),
         (''classification_results'', PyDict []),
         (''data_mapping'', PyDict []),
         (''research_results'', PyDict []),
         (''legal_expert'', PyDict []),
         (''cyber_security'', PyDict []),
         (''structure_results'', PyDict []),
         (''generated_content'', PyStr []),
         (''quality_assessment'', PyDict []),
         (''compliance_validation'', PyDict []),
         (''human_supervision'', PyDict []),
         (''processing_log'', PyList []),
         (''error'', PyNone),
         (''is_complete'', PyBool False),
         (''is_approved'', PyBool False),
         (''quality_score'', PyFloat 0.0),
         (''compliance_score'', PyFloat 0.0),
         (''processing_time'', PyFloat 0.0),
         (''metadata'', PyDict []),
         (''webhook_url'', PyNone),
         (''external_system_id'', PyNone)]))"

text \<open>
  The document types the HTTP endpoint accepts (src/api/main.py, lines 119 to 123); the
  endpoint checks membership before it calls \<open>create_initial_state\<close>, the function itself
  does not.
\<close>

definition valid_types :: "string list" where
  "valid_types =
     [''politica_privacidade'', ''termo_consentimento'', ''clausula_contratual'',
      ''ata_comite'', ''codigo_conduta'', ''acordo_tratamento_dados'',
      ''notificacao_violacao'', ''avaliacao_impacto'']"

section \<open>Python helpers\<close>

text \<open>\<^verbatim>\<open>state.get(key, default)\<close>.\<close>

definition py_get :: "DocumentState \<Rightarrow> string \<Rightarrow> pyval \<Rightarrow> pyval" where
  "py_get state key dflt = (case state key of None \<Rightarrow> dflt | Some v \<Rightarrow> v)"

text \<open>
  The values Python compares and adds as numbers (\<^verbatim>\<open>bool\<close> is a subclass of
  \<^verbatim>\<open>int\<close>); comparing any other value with a number raises \<^verbatim>\<open>TypeError\<close>.
\<close>

fun as_number :: "pyval \<Rightarrow> real option" where
  "as_number (PyFloat r) = Some r"
| "as_number (PyInt i) = Some (of_int i)"
| "as_number (PyBool b) = Some (if b then 1 else 0)"
| "as_number v = None"

text \<open>\<^verbatim>\<open>x + 1\<close>, keeping the kind of number.\<close>

fun py_add1 :: "pyval \<Rightarrow> pyval option" where
  "py_add1 (PyFloat r) = Some (PyFloat (r + 1))"
| "py_add1 (PyInt i) = Some (PyInt (i + 1))"
| "py_add1 (PyBool b) = Some (PyInt ((if b then 1 else 0) + 1))"
| "py_add1 v = None"

fun py_type_name :: "pyval \<Rightarrow> string" where
  "py_type_name PyNone = ''NoneType''"
| "py_type_name (PyBool b) = ''bool''"
| "py_type_name (PyInt i) = ''int''"
| "py_type_name (PyFloat r) = ''float''"
| "py_type_name (PyStr s) = ''str''"
| "py_type_name (PyBytes b) = ''bytes''"
| "py_type_name (PyTime t) = ''datetime''"
| "py_type_name (PyStatus st) = ''ProcessingStatus''"
| "py_type_name (PyDocType d) = ''DocumentType''"
| "py_type_name (PyList xs) = ''list''"
| "py_type_name (PyDict kvs) = ''dict''"

text \<open>Truthiness, as \<^verbatim>\<open>if not x\<close> tests it.\<close>

fun truthy :: "pyval \<Rightarrow> bool" where
  "truthy PyNone = False"
| "truthy (PyBool b) = b"
| "truthy (PyInt i) = (i \<noteq> 0)"
| "truthy (PyFloat r) = (r \<noteq> 0)"
| "truthy (PyStr s) = (s \<noteq> [])"
| "truthy (PyBytes b) = (b \<noteq> [])"
| "truthy (PyTime t) = True"
| "truthy (PyStatus st) = True"
| "truthy (PyDocType d) = True"
| "truthy (PyList xs) = (xs \<noteq> [])"
| "truthy (PyDict kvs) = (kvs \<noteq> [])"

text \<open>
  The agents mutate the dictionary in place.  A method that raises therefore leaves the
  dictionary as it was at the \<^verbatim>\<open>raise\<close>, and the \<^verbatim>\<open>except\<close> block that catches the
  exception goes on from that dictionary: a method returns \<open>Inr\<close> the state it returns,
  or \<open>Inl\<close> the exception together with the state as mutated so far.
\<close>

type_synonym stage_result = "(exn \<times> DocumentState) + DocumentState"
type_synonym stage_fn = "DocumentState \<Rightarrow> stage_result"

text \<open>\<^verbatim>\<open>state[key].append(v)\<close>: \<^verbatim>\<open>KeyError\<close> when the key is absent.\<close>

definition py_append :: "DocumentState \<Rightarrow> string \<Rightarrow> pyval \<Rightarrow> stage_result" where
  "py_append state key v =
     (case state key of
        None \<Rightarrow> Inl (KeyError key, state)
      | Some (PyList xs) \<Rightarrow> Inr (state(key \<mapsto> PyList (xs @ [v])))
      | Some other \<Rightarrow> Inl (AttributeError (py_type_name other) ''append'', state))"

section \<open>Agents (src/agents/base_agent.py)\<close>

text \<open>
  An agent object, as far as the workflow sees it: its class name and the two methods a
  class may define.  \<open>None\<close> is a method the class does not define, so that looking it up
  raises \<^verbatim>\<open>AttributeError\<close>.  \<^verbatim>\<open>BaseAgent\<close> defines neither.
\<close>

record agent =
  class_name :: string
  process :: "stage_fn option"
  execute :: "stage_fn option"

definition BaseAgent :: "string \<Rightarrow> agent" where
  "BaseAgent cls = \<lparr>class_name = cls, process = None, execute = None\<rparr>"

text \<open>\<^verbatim>\<open>BaseAgent.log_action\<close>, for an agent of class \<open>cls\<close>.\<close>

definition log_action :: "string \<Rightarrow> DocumentState \<Rightarrow> string \<Rightarrow> stage_result" where
  "log_action cls state message =
     (let state1 = (if state ''processing_log'' = None
                    then state(''processing_log'' \<mapsto> PyList []) else state)
      in py_append state1 ''processing_log'' (PyStr (cls @ '': '' @ message)))"

text \<open>\<^verbatim>\<open>agent.process(state)\<close>: the attribute lookup, then the call.\<close>

definition call_process :: "agent \<Rightarrow> stage_fn" where
  "call_process a state =
     (case process a of
        None \<Rightarrow> Inl (AttributeError (class_name a) ''process'', state)
      | Some f \<Rightarrow> f state)"

section \<open>The workflow (src/workflows/workflow.py)\<close>

text \<open>
  The agent table built by \<^verbatim>\<open>DocumentWorkflow.__init__\<close>.  The classes
  \<^verbatim>\<open>DataMappingAgent\<close>, \<^verbatim>\<open>LegalExpertAgent\<close> and \<^verbatim>\<open>CyberSecurityAgent\<close> define
  \<^verbatim>\<open>process\<close> and no \<^verbatim>\<open>execute\<close>; the other eight define \<^verbatim>\<open>execute\<close> and no
  \<^verbatim>\<open>process\<close>.  The bodies of the methods are parameters: \<open>ex key\<close> is the
  \<^verbatim>\<open>execute\<close> of the agent under \<open>key\<close>, \<open>pr key\<close> its \<^verbatim>\<open>process\<close>.
\<close>

definition DocumentWorkflow_agents ::
  "(string \<Rightarrow> stage_fn) \<Rightarrow> (string \<Rightarrow> stage_fn) \<Rightarrow> string \<rightharpoonup> agent" where
  "DocumentWorkflow_agents ex pr = map_of
     [(''ocr'', (BaseAgent ''OCRAgent'')\<lparr>execute := Some (ex ''ocr'')\<rparr>),
      (''classifier'', (BaseAgent ''ClassifierAgent'')\<lparr>execute := Some (ex ''classifier'')\<rparr>),
      (''data_mapping'', (BaseAgent ''DataMappingAgent'')\<lparr>process := Some (pr ''data_mapping'')\<rparr>),
      (''research'', (BaseAgent ''ResearchAgent'')\<lparr>execute := Some (ex ''research'')\<rparr>),
      (''legal_expert'', (BaseAgent ''LegalExpertAgent'')\<lparr>process := Some (pr ''legal_expert'')\<rparr>),
      (''cyber_security'',
         (BaseAgent ''CyberSecurityAgent'')\<lparr>process := Some (pr ''cyber_security'')\<rparr>),
      (''structure'', (BaseAgent ''StructureAgent'')\<lparr>execute := Some (ex ''structure'')\<rparr>),
      (''generator'', (BaseAgent ''GeneratorAgent'')\<lparr>execute := Some (ex ''generator'')\<rparr>),
      (''quality'', (BaseAgent ''QualityAgent'')\<lparr>execute := Some (ex ''quality'')\<rparr>),
      (''compliance'', (BaseAgent ''ComplianceAgent'')\<lparr>execute := Some (ex ''compliance'')\<rparr>),
      (''human_supervision'',
         (BaseAgent ''HumanSupervisionAgent'')\<lparr>execute := Some (ex ''human_supervision'')\<rparr>)]"

text \<open>
  The eleven node handlers \<^verbatim>\<open>_run_ocr\<close> to \<^verbatim>\<open>_run_human_supervision\<close> have one body
  up to the key of the agent: call \<^verbatim>\<open>self.agents[key].process(state)\<close> inside
  \<^verbatim>\<open>try\<close>, and on any exception store \<^verbatim>\<open>ERROR\<close> under the key \<^verbatim>\<open>status\<close> and the
  message under \<^verbatim>\<open>error\<close>.
\<close>

definition run_agent :: "(string \<rightharpoonup> agent) \<Rightarrow> string \<Rightarrow> DocumentState \<Rightarrow> DocumentState" where
  "run_agent agents key state =
     (case (case agents key of
              None \<Rightarrow> Inl (KeyError key, state)
            | Some a \<Rightarrow> call_process a state) of
        Inr state' \<Rightarrow> state'
      | Inl (e, state') \<Rightarrow>
          state'(''status'' \<mapsto> PyStatus ERROR, ''error'' \<mapsto> PyStr (str_exn e)))"

definition run_ocr :: "(string \<rightharpoonup> agent) \<Rightarrow> DocumentState \<Rightarrow> DocumentState" where
  "run_ocr agents = run_agent agents ''ocr''"

definition run_classifier :: "(string \<rightharpoonup> agent) \<Rightarrow> DocumentState \<Rightarrow> DocumentState" where
  "run_classifier agents = run_agent agents ''classifier''"

definition run_data_mapping :: "(string \<rightharpoonup> agent) \<Rightarrow> DocumentState \<Rightarrow> DocumentState" where
  "run_data_mapping agents = run_agent agents ''data_mapping''"

definition run_research :: "(string \<rightharpoonup> agent) \<Rightarrow> DocumentState \<Rightarrow> DocumentState" where
  "run_research agents = run_agent agents ''research''"

definition run_legal_expert :: "(string \<rightharpoonup> agent) \<Rightarrow> DocumentState \<Rightarrow> DocumentState" where
  "run_legal_expert agents = run_agent agents ''legal_expert''"

definition run_cyber_security :: "(string \<rightharpoonup> agent) \<Rightarrow> DocumentState \<Rightarrow> DocumentState" where
  "run_cyber_security agents = run_agent agents ''cyber_security''"

definition run_structure :: "(string \<rightharpoonup> agent) \<Rightarrow> DocumentState \<Rightarrow> DocumentState" where
  "run_structure agents = run_agent agents ''structure''"

definition run_generator :: "(string \<rightharpoonup> agent) \<Rightarrow> DocumentState \<Rightarrow> DocumentState" where
  "run_generator agents = run_agent agents ''generator''"

definition run_quality :: "(string \<rightharpoonup> agent) \<Rightarrow> DocumentState \<Rightarrow> DocumentState" where
  "run_quality agents = run_agent agents ''quality''"

definition run_compliance :: "(string \<rightharpoonup> agent) \<Rightarrow> DocumentState \<Rightarrow> DocumentState" where
  "run_compliance agents = run_agent agents ''compliance''"

definition run_human_supervision :: "(string \<rightharpoonup> agent) \<Rightarrow> DocumentState \<Rightarrow> DocumentState" where
  "run_human_supervision agents = run_agent agents ''human_supervision''"

text \<open>\<^verbatim>\<open>_should_continue\<close>: it reads the key \<^verbatim>\<open>status\<close>.\<close>

definition should_continue :: "DocumentState \<Rightarrow> string" where
  "should_continue state =
     (if state ''status'' = Some (PyStatus ERROR) then ''error''
      else if state ''human_supervision'' \<noteq> None then ''end''
      else ''continue'')"

text \<open>
  \<^verbatim>\<open>_build_graph\<close>.  The graph library is not part of the repository; the model takes
  from it what the calls of \<^verbatim>\<open>_build_graph\<close> and \<^verbatim>\<open>run\<close> rely on.  A graph has named
  nodes, each a function on the state, and an entry point.  A conditional edge leaves a
  node with a router and a path map: after the node has run, the router is applied to
  the state and its result is looked up in the path map, which gives the next node or
  \<open>END\<close>; a result the path map does not hold raises \<^verbatim>\<open>KeyError\<close>.  \<^verbatim>\<open>invoke\<close> runs from
  the entry point until \<open>END\<close> and raises once the number of steps passes the
  recursion limit, 25 unless configured.  \<open>graph_run\<close> also returns the names of the
  nodes it has run, in order.
\<close>

datatype target = Node string | END

definition nodes :: "(string \<rightharpoonup> agent) \<Rightarrow> string \<rightharpoonup> (DocumentState \<Rightarrow> DocumentState)" where
  "nodes agents = map_of
     [(''ocr'', run_ocr agents),
      (''classifier'', run_classifier agents),
      (''data_mapping'', run_data_mapping agents),
      (''research'', run_research agents),
      (''legal_expert'', run_legal_expert agents),
      (''cyber_security'', run_cyber_security agents),
      (''structure'', run_structure agents),
      (''generator'', run_generator agents),
      (''quality'', run_quality agents),
      (''compliance'', run_compliance agents),
      (''human_supervision'', run_human_supervision agents)]"

definition entry_point :: string where
  "entry_point = ''ocr''"

definition conditional_edges :: "string \<rightharpoonup> (string \<times> target) list" where
  "conditional_edges = map_of
     [(''ocr'', [(''classifier'', Node ''classifier''), (''error'', END)]),
      (''classifier'', [(''data_mapping'', Node ''data_mapping''), (''error'', END)]),
      (''data_mapping'', [(''research'', Node ''research''), (''error'', END)]),
      (''research'', [(''legal_expert'', Node ''legal_expert''), (''error'', END)]),
      (''legal_expert'', [(''cyber_security'', Node ''cyber_security''), (''error'', END)]),
      (''cyber_security'', [(''structure'', Node ''structure''), (''error'', END)]),
      (''structure'', [(''generator'', Node ''generator''), (''error'', END)]),
      (''generator'', [(''quality'', Node ''quality''), (''error'', END)]),
      (''quality'', [(''compliance'', Node ''compliance''), (''error'', END)]),
      (''compliance'', [(''human_supervision'', Node ''human_supervision''), (''error'', END)]),
      (''human_supervision'', [(''end'', END), (''error'', END)])]"

text \<open>
  One step of the graph at a node: run the node, route.  The result is the new state and
  where to go, or the exception of the routing.
\<close>

definition graph_step ::
  "(string \<rightharpoonup> agent) \<Rightarrow> string \<Rightarrow> DocumentState \<Rightarrow> exn + (target \<times> DocumentState)" where
  "graph_step agents node state =
     (case nodes agents node of
        None \<Rightarrow> Inl (KeyError node)
      | Some handler \<Rightarrow>
          (let state' = handler state in
           case conditional_edges node of
             None \<Rightarrow> Inr (END, state')
           | Some path_map \<Rightarrow>
               (case map_of path_map (should_continue state') of
                  None \<Rightarrow> Inl (KeyError (should_continue state'))
                | Some t \<Rightarrow> Inr (t, state'))))"

fun graph_run ::
  "(string \<rightharpoonup> agent) \<Rightarrow> nat \<Rightarrow> string \<Rightarrow> DocumentState \<Rightarrow> string list
     \<Rightarrow> exn + (string list \<times> DocumentState)" where
  "graph_run agents 0 node state visited =
     Inl (GraphRecursionError ''Recursion limit reached'')"
| "graph_run agents (Suc fuel) node state visited =
     (case graph_step agents node state of
        Inl e \<Rightarrow> Inl e
      | Inr (END, state') \<Rightarrow> Inr (visited @ [node], state')
      | Inr (Node next, state') \<Rightarrow> graph_run agents fuel next state' (visited @ [node]))"

definition recursion_limit :: nat where
  "recursion_limit = 25"

definition graph_invoke ::
  "(string \<rightharpoonup> agent) \<Rightarrow> DocumentState \<Rightarrow> exn + (string list \<times> DocumentState)" where
  "graph_invoke agents state = graph_run agents recursion_limit entry_point state []"

text \<open>
  \<^verbatim>\<open>run\<close>: everything is inside \<^verbatim>\<open>try\<close>; the \<^verbatim>\<open>except\<close> block writes to the
  dictionary the caller passed in.  The clock readings only feed the log.
\<close>

definition run :: "(string \<rightharpoonup> agent) \<Rightarrow> DocumentState \<Rightarrow> exn + DocumentState" where
  "run agents initial_state =
     (case graph_invoke agents initial_state of
        Inr (visited, final_state) \<Rightarrow> Inr final_state
      | Inl e \<Rightarrow>
          Inr (initial_state(''status'' \<mapsto> PyStatus ERROR, ''error'' \<mapsto> PyStr (str_exn e))))"

section \<open>Compliance agent (src/agents/compliance_agent.py)\<close>

text \<open>
  Python strings are sequences of code points; every character of the texts below is
  below 256, and a \<open>char\<close> holds its code point.
\<close>

record ComplianceRequirement =
  requirement_id :: string
  description :: string
  lgpd_article :: string
  status :: string
  evidence :: string
  risk_level :: string

record ComplianceValidation =
  overall_compliance_score :: real
  lgpd_compliance_score :: real
  anpd_compliance_score :: real
  industry_compliance_score :: real
  requirements :: "ComplianceRequirement list"
  compliance_gaps :: "string list"
  risk_assessment :: string
  recommendations :: "string list"
  is_compliant :: bool

text \<open>\<^verbatim>\<open>str(n)\<close> for a natural number.\<close>

fun str_nat :: "nat \<Rightarrow> string" where
  "str_nat n =
     (if n < 10 then [char_of (48 + n)]
      else str_nat (n div 10) @ [char_of (48 + n mod 10)])"

text \<open>
  \<^verbatim>\<open>_check_requirement\<close>.  The regular-expression engine is a parameter:
  \<open>findall pattern content\<close> is the list \<^verbatim>\<open>re.findall(pattern, content, re.IGNORECASE)\<close>
  returns.
\<close>

definition check_requirement ::
  "(string \<Rightarrow> string \<Rightarrow> string list) \<Rightarrow> string \<Rightarrow> string \<Rightarrow> string \<times> string" where
  "check_requirement findall content pattern =
     (let matches = findall pattern content in
      if length matches \<ge> 2 then
        (''compliant'',
         ''Encontradas '' @ str_nat (length matches) @ '' refer'' @ [CHR 0xEA] @ ''ncias'')
      else if length matches = 1 then
        (''partial'', ''Encontrada 1 refer'' @ [CHR 0xEA] @ ''ncia'')
      else
        (''non_compliant'', ''Nenhuma refer'' @ [CHR 0xEA] @ ''ncia encontrada''))"

text \<open>\<^verbatim>\<open>_calculate_requirement_score\<close>: the two dictionaries, the loop, the quotient.\<close>

definition weight_map :: "string \<rightharpoonup> int" where
  "weight_map = map_of [(''low'', 1), (''medium'', 2), (''high'', 3), (''critical'', 4)]"

definition status_score :: "string \<rightharpoonup> real" where
  "status_score = map_of [(''compliant'', 1.0), (''partial'', 0.5), (''non_compliant'', 0.0)]"

definition weight_of :: "ComplianceRequirement \<Rightarrow> int" where
  "weight_of req = (case weight_map (risk_level req) of None \<Rightarrow> 1 | Some w \<Rightarrow> w)"

definition score_of :: "ComplianceRequirement \<Rightarrow> real" where
  "score_of req = (case status_score (status req) of None \<Rightarrow> 0.0 | Some s \<Rightarrow> s)"

fun score_loop :: "ComplianceRequirement list \<Rightarrow> int \<Rightarrow> real \<Rightarrow> int \<times> real" where
  "score_loop [] total_weight weighted_score = (total_weight, weighted_score)"
| "score_loop (req # reqs) total_weight weighted_score =
     score_loop reqs (total_weight + weight_of req)
       (weighted_score + score_of req * of_int (weight_of req))"

definition calculate_requirement_score :: "ComplianceRequirement list \<Rightarrow> real" where
  "calculate_requirement_score reqs =
     (if reqs = [] then 1.0
      else (case score_loop reqs 0 0 of
              (total_weight, weighted_score) \<Rightarrow>
                if total_weight > 0 then weighted_score / of_int total_weight else 0.0))"

text \<open>The requirement tables, one row per dictionary literal of the source.\<close>

record requirement_row =
  row_id :: string
  row_description :: string
  row_article :: string
  row_pattern :: string
  row_risk :: string

definition lgpd_base_requirements :: "requirement_row list" where
  "lgpd_base_requirements =
     [\<lparr>row_id = ''LGPD_001'',
        row_description = ''Mencionar LGPD explicitamente'',
        row_article = ''Art. 5'' @ [CHR 0xBA],
        row_pattern = [CHR 0x5C] @ ''b(LGPD|Lei Geral de Prote'' @ [CHR 0xE7, CHR 0xE3] @ ''o de Dados)'' @ [CHR 0x5C] @ ''b'',
        row_risk = ''high''\<rparr>,
      \<lparr>row_id = ''LGPD_002'',
        row_description = ''Identificar controlador de dados'',
        row_article = ''Art. 5'' @ [CHR 0xBA],
        row_pattern = [CHR 0x5C] @ ''b(controlador|respons'' @ [CHR 0xE1] @ ''vel)'' @ [CHR 0x5C] @ ''b'',
        row_risk = ''high''\<rparr>,
      \<lparr>row_id = ''LGPD_003'',
        row_description = ''Especificar finalidade do tratamento'',
        row_article = ''Art. 6'' @ [CHR 0xBA],
        row_pattern = [CHR 0x5C] @ ''b(finalidade|objetivo|prop'' @ [CHR 0xF3] @ ''sito)'' @ [CHR 0x5C] @ ''b'',
        row_risk = ''high''\<rparr>,
      \<lparr>row_id = ''LGPD_004'',
        row_description = ''Mencionar base legal'',
        row_article = ''Art. 7'' @ [CHR 0xBA],
        row_pattern = [CHR 0x5C] @ ''b(base legal|fundamento legal|consentimento|leg'' @ [CHR 0xED] @ ''timo interesse)'' @ [CHR 0x5C] @ ''b'',
        row_risk = ''high''\<rparr>]"

definition lgpd_privacy_policy_requirements :: "requirement_row list" where
  "lgpd_privacy_policy_requirements =
     [\<lparr>row_id = ''LGPD_005'',
        row_description = ''Informar direitos do titular'',
        row_article = ''Art. 12'' @ [CHR 0xBA],
        row_pattern = [CHR 0x5C] @ ''b(direito|direitos)'' @ [CHR 0x5C] @ ''b'',
        row_risk = ''critical''\<rparr>,
      \<lparr>row_id = ''LGPD_006'',
        row_description = ''Especificar prazo de reten'' @ [CHR 0xE7, CHR 0xE3] @ ''o'',
        row_article = ''Art. 15'' @ [CHR 0xBA],
        row_pattern = [CHR 0x5C] @ ''b(prazo|reten'' @ [CHR 0xE7, CHR 0xE3] @ ''o|armazenamento|elimina'' @ [CHR 0xE7, CHR 0xE3] @ ''o)'' @ [CHR 0x5C] @ ''b'',
        row_risk = ''high''\<rparr>,
      \<lparr>row_id = ''LGPD_007'',
        row_description = ''Informar contato do DPO'',
        row_article = ''Art. 41'' @ [CHR 0xBA],
        row_pattern = [CHR 0x5C] @ ''b(DPO|Encarregado|contato)'' @ [CHR 0x5C] @ ''b'',
        row_risk = ''critical''\<rparr>]"

definition lgpd_consent_requirements :: "requirement_row list" where
  "lgpd_consent_requirements =
     [\<lparr>row_id = ''LGPD_008'',
        row_description = ''Consentimento livre e informado'',
        row_article = ''Art. 7'' @ [CHR 0xBA],
        row_pattern = [CHR 0x5C] @ ''b(consentimento|livre|informado)'' @ [CHR 0x5C] @ ''b'',
        row_risk = ''critical''\<rparr>,
      \<lparr>row_id = ''LGPD_009'',
        row_description = ''Direito de revoga'' @ [CHR 0xE7, CHR 0xE3] @ ''o'',
        row_article = ''Art. 19'' @ [CHR 0xBA],
        row_pattern = [CHR 0x5C] @ ''b(revoga'' @ [CHR 0xE7, CHR 0xE3] @ ''o|revogar|cancelar)'' @ [CHR 0x5C] @ ''b'',
        row_risk = ''critical''\<rparr>,
      \<lparr>row_id = ''LGPD_010'',
        row_description = ''Consequ'' @ [CHR 0xEA] @ ''ncias da negativa'',
        row_article = ''Art. 7'' @ [CHR 0xBA],
        row_pattern = [CHR 0x5C] @ ''b(consequ'' @ [CHR 0xEA] @ ''ncia|negativa|recusa)'' @ [CHR 0x5C] @ ''b'',
        row_risk = ''high''\<rparr>]"

definition anpd_requirements :: "requirement_row list" where
  "anpd_requirements =
     [\<lparr>row_id = ''ANPD_001'',
        row_description = ''Conformidade com orienta'' @ [CHR 0xE7, CHR 0xF5] @ ''es ANPD'',
        row_article = ''Orienta'' @ [CHR 0xE7, CHR 0xE3] @ ''o ANPD'',
        row_pattern = [CHR 0x5C] @ ''b(ANPD|Autoridade Nacional|orienta'' @ [CHR 0xE7, CHR 0xE3] @ ''o)'' @ [CHR 0x5C] @ ''b'',
        row_risk = ''medium''\<rparr>,
      \<lparr>row_id = ''ANPD_002'',
        row_description = ''Linguagem clara e acess'' @ [CHR 0xED] @ ''vel'',
        row_article = ''Princ'' @ [CHR 0xED] @ ''pio da Transpar'' @ [CHR 0xEA] @ ''ncia'',
        row_pattern = [CHR 0x5C] @ ''b(claro|acess'' @ [CHR 0xED] @ ''vel|compreens'' @ [CHR 0xED] @ ''vel|simples)'' @ [CHR 0x5C] @ ''b'',
        row_risk = ''medium''\<rparr>,
      \<lparr>row_id = ''ANPD_003'',
        row_description = ''Informa'' @ [CHR 0xE7, CHR 0xF5] @ ''es completas e precisas'',
        row_article = ''Princ'' @ [CHR 0xED] @ ''pio da Precis'' @ [CHR 0xE3] @ ''o'',
        row_pattern = [CHR 0x5C] @ ''b(completo|preciso|detalhado|espec'' @ [CHR 0xED] @ ''fico)'' @ [CHR 0x5C] @ ''b'',
        row_risk = ''high''\<rparr>]"

definition sector_requirements :: "(string \<times> requirement_row list) list" where
  "sector_requirements =
     [(''sa'' @ [CHR 0xFA] @ ''de'',
      [\<lparr>row_id = ''SAUDE_001'',
        row_description = ''Conformidade com regulamenta'' @ [CHR 0xE7, CHR 0xF5] @ ''es de sa'' @ [CHR 0xFA] @ ''de'',
        row_article = ''Resolu'' @ [CHR 0xE7, CHR 0xE3] @ ''o CFM'',
        row_pattern = [CHR 0x5C] @ ''b(sa'' @ [CHR 0xFA] @ ''de|m'' @ [CHR 0xE9] @ ''dico|tratamento|diagn'' @ [CHR 0xF3] @ ''stico)'' @ [CHR 0x5C] @ ''b'',
        row_risk = ''critical''\<rparr>,
      \<lparr>row_id = ''SAUDE_002'',
        row_description = ''Sigilo profissional'',
        row_article = ''C'' @ [CHR 0xF3] @ ''digo de '' @ [CHR 0xC9] @ ''tica M'' @ [CHR 0xE9] @ ''dica'',
        row_pattern = [CHR 0x5C] @ ''b(sigilo|confidencialidade|segredo)'' @ [CHR 0x5C] @ ''b'',
        row_risk = ''critical''\<rparr>]),
     (''financeiro'',
      [\<lparr>row_id = ''FIN_001'',
        row_description = ''Conformidade com regulamenta'' @ [CHR 0xE7, CHR 0xF5] @ ''es financeiras'',
        row_article = ''Resolu'' @ [CHR 0xE7, CHR 0xE3] @ ''o CMN'',
        row_pattern = [CHR 0x5C] @ ''b(financeiro|banc'' @ [CHR 0xE1] @ ''rio|cr'' @ [CHR 0xE9] @ ''dito|investimento)'' @ [CHR 0x5C] @ ''b'',
        row_risk = ''critical''\<rparr>,
      \<lparr>row_id = ''FIN_002'',
        row_description = ''Sigilo banc'' @ [CHR 0xE1] @ ''rio'',
        row_article = ''Lei Complementar 105/2001'',
        row_pattern = [CHR 0x5C] @ ''b(sigilo banc'' @ [CHR 0xE1] @ ''rio|confidencialidade)'' @ [CHR 0x5C] @ ''b'',
        row_risk = ''critical''\<rparr>]),
     (''e-commerce'',
      [\<lparr>row_id = ''ECOMM_001'',
        row_description = ''Conformidade com C'' @ [CHR 0xF3] @ ''digo de Defesa do Consumidor'',
        row_article = ''CDC'',
        row_pattern = [CHR 0x5C] @ ''b(consumidor|cliente|compra|venda)'' @ [CHR 0x5C] @ ''b'',
        row_risk = ''high''\<rparr>])]"

text \<open>The loop that checks each row and builds its \<^verbatim>\<open>ComplianceRequirement\<close>.\<close>

definition check_row ::
  "(string \<Rightarrow> string \<Rightarrow> string list) \<Rightarrow> string \<Rightarrow> requirement_row \<Rightarrow> ComplianceRequirement" where
  "check_row findall content req =
     (case check_requirement findall content (row_pattern req) of
        (st, ev) \<Rightarrow>
          \<lparr>requirement_id = row_id req, description = row_description req,
           lgpd_article = row_article req, status = st, evidence = ev,
           risk_level = row_risk req\<rparr>)"

definition validate_lgpd_requirements ::
  "(string \<Rightarrow> string \<Rightarrow> string list) \<Rightarrow> string \<Rightarrow> string \<Rightarrow> ComplianceRequirement list" where
  "validate_lgpd_requirements findall content document_type =
     map (check_row findall content)
       (lgpd_base_requirements @
        (if document_type = ''politica_privacidade'' then lgpd_privacy_policy_requirements
         else if document_type = ''termo_consentimento'' then lgpd_consent_requirements
         else []))"

definition validate_anpd_requirements ::
  "(string \<Rightarrow> string \<Rightarrow> string list) \<Rightarrow> string \<Rightarrow> string \<Rightarrow> ComplianceRequirement list" where
  "validate_anpd_requirements findall content document_type =
     map (check_row findall content) anpd_requirements"

text \<open>\<^verbatim>\<open>str.lower()\<close> on code points below 256.\<close>

definition lower_char :: "char \<Rightarrow> char" where
  "lower_char c =
     (let n = of_char c :: nat in
      if (65 \<le> n \<and> n \<le> 90) \<or> (192 \<le> n \<and> n \<le> 222 \<and> n \<noteq> 215) then char_of (n + 32) else c)"

definition py_lower :: "string \<Rightarrow> string" where
  "py_lower s = map lower_char s"

definition validate_industry_requirements ::
  "(string \<Rightarrow> string \<Rightarrow> string list) \<Rightarrow> string \<Rightarrow> string \<Rightarrow> ComplianceRequirement list" where
  "validate_industry_requirements findall content industry_sector =
     map (check_row findall content)
       (case map_of sector_requirements (py_lower industry_sector) of
          None \<Rightarrow> [] | Some sector_reqs \<Rightarrow> sector_reqs)"

definition identify_compliance_gaps :: "ComplianceRequirement list \<Rightarrow> string list" where
  "identify_compliance_gaps reqs =
     map (\<lambda>req. description req @ '' ('' @ lgpd_article req @ '') - '' @ evidence req)
       (filter (\<lambda>req. status req \<in> set [''non_compliant'', ''partial'']) reqs)"

definition assess_compliance_risk :: "ComplianceRequirement list \<Rightarrow> string" where
  "assess_compliance_risk reqs =
     (let critical_issues =
            length (filter (\<lambda>r. risk_level r = ''critical'' \<and> status r \<noteq> ''compliant'') reqs);
          high_issues =
            length (filter (\<lambda>r. risk_level r = ''high'' \<and> status r \<noteq> ''compliant'') reqs)
      in if critical_issues > 0 then ''critical''
         else if high_issues > 2 then ''high''
         else if high_issues > 0 then ''medium''
         else ''low'')"

text \<open>\<^verbatim>\<open>sub in s\<close> on strings.\<close>

fun py_in :: "string \<Rightarrow> string \<Rightarrow> bool" where
  "py_in sub [] = (sub = [])"
| "py_in sub (c # cs) = (take (length sub) (c # cs) = sub \<or> py_in sub cs)"

definition generate_compliance_recommendations ::
  "ComplianceRequirement list \<Rightarrow> real \<Rightarrow> string list" where
  "generate_compliance_recommendations reqs overall_score =
     (if overall_score < 0.7 then
        [''Revis'' @ [CHR 0xE3] @ ''o completa de conformidade necess'' @ [CHR 0xE1] @ ''ria'']
      else if overall_score < 0.85 then [''Melhorias de conformidade recomendadas'']
      else [])
     @ map (\<lambda>req. ''CR'' @ [CHR 0xCD] @ ''TICO: Implementar '' @ description req)
         (filter (\<lambda>req. risk_level req \<in> set [''critical'', ''high''])
            (filter (\<lambda>r. status r = ''non_compliant'') reqs))
     @ map (\<lambda>req. ''IMPORTANTE: Melhorar '' @ description req)
         (filter (\<lambda>req. risk_level req \<in> set [''critical'', ''high''])
            (filter (\<lambda>r. status r = ''partial'') reqs))
     @ (if list_ex (\<lambda>req. py_in ''SAUDE'' (requirement_id req)) reqs then
          [''Considerar regulamenta'' @ [CHR 0xE7, CHR 0xF5] @ ''es espec'' @ [CHR 0xED]
             @ ''ficas do setor de sa'' @ [CHR 0xFA] @ ''de'']
        else [])
     @ (if list_ex (\<lambda>req. py_in ''FIN'' (requirement_id req)) reqs then
          [''Considerar regulamenta'' @ [CHR 0xE7, CHR 0xF5] @ ''es espec'' @ [CHR 0xED]
             @ ''ficas do setor financeiro'']
        else [])"

text \<open>
  \<^verbatim>\<open>_validate_compliance\<close>.  \<^verbatim>\<open>state["document_type"].value\<close> raises when the key is
  absent or the value is not a member of \<^verbatim>\<open>DocumentType\<close>; the regular-expression
  engine raises \<^verbatim>\<open>TypeError\<close> on a content that is not a string; \<^verbatim>\<open>.lower()\<close> raises
  on a sector that is not a string.
\<close>

definition validate_compliance ::
  "(string \<Rightarrow> string \<Rightarrow> string list) \<Rightarrow> DocumentState \<Rightarrow> exn + ComplianceValidation" where
  "validate_compliance findall state =
     (case state ''document_type'' of
        None \<Rightarrow> Inl (KeyError ''document_type'')
      | Some (PyDocType d) \<Rightarrow>
          (case py_get state ''generated_content'' (PyStr []) of
             PyStr content \<Rightarrow>
               (case py_get state ''industry_sector'' (PyStr ''geral'') of
                  PyStr industry_sector \<Rightarrow>
                    (let document_type = DocumentType_value d;
                         lgpd_requirements = validate_lgpd_requirements findall content document_type;
                         anpd_requirements = validate_anpd_requirements findall content document_type;
                         industry_requirements =
                           validate_industry_requirements findall content industry_sector;
                         all_requirements =
                           lgpd_requirements @ anpd_requirements @ industry_requirements;
                         lgpd_score = calculate_requirement_score lgpd_requirements;
                         anpd_score = calculate_requirement_score anpd_requirements;
                         industry_score = calculate_requirement_score industry_requirements;
                         overall_score = lgpd_score * 0.5 + anpd_score * 0.3 + industry_score * 0.2
                     in Inr \<lparr>overall_compliance_score = overall_score,
                             lgpd_compliance_score = lgpd_score,
                             anpd_compliance_score = anpd_score,
                             industry_compliance_score = industry_score,
                             requirements = all_requirements,
                             compliance_gaps = identify_compliance_gaps all_requirements,
                             risk_assessment = assess_compliance_risk all_requirements,
                             recommendations =
                               generate_compliance_recommendations all_requirements overall_score,
                             is_compliant =
                               (overall_score \<ge> 0.85 \<and>
                                length (filter (\<lambda>r. risk_level r = ''critical'') all_requirements)
                                  = 0)\<rparr>)
                | other \<Rightarrow> Inl (AttributeError (py_type_name other) ''lower''))
           | other \<Rightarrow> Inl (TypeError ''expected string or bytes-like object''))
      | Some other \<Rightarrow> Inl (AttributeError (py_type_name other) ''value''))"

section \<open>Configuration (src/config.py)\<close>

text \<open>
  \<^verbatim>\<open>MAX_REVISION_ATTEMPTS = int(os.getenv("MAX_REVISION_ATTEMPTS", "3"))\<close>: the argument is
  the setting of the environment variable, \<open>None\<close> when it is not set.
\<close>

definition MAX_REVISION_ATTEMPTS :: "int option \<Rightarrow> int" where
  "MAX_REVISION_ATTEMPTS env = (case env of None \<Rightarrow> 3 | Some n \<Rightarrow> n)"

section \<open>What the agents share\<close>

text \<open>\<^verbatim>\<open>f"{x:.2f}"\<close> on the idealised value: two decimals, ties to even.\<close>

definition round_half_even :: "real \<Rightarrow> int" where
  "round_half_even y =
     (let f = \<lfloor>y\<rfloor>; d = y - of_int f
      in if d < 1 / 2 then f else if d > 1 / 2 then f + 1 else if even f then f else f + 1)"

definition format_2f :: "real \<Rightarrow> string" where
  "format_2f x =
     (let n = nat (round_half_even (\<bar>x\<bar> * 100))
      in (if x < 0 then ''-'' else []) @ str_nat (n div 100) @ ''.''
           @ [char_of (48 + n div 10 mod 10), char_of (48 + n mod 10)])"

text \<open>
  The \<^verbatim>\<open>except Exception as e\<close> block the agents' \<^verbatim>\<open>execute\<close> methods end with, for
  an agent of class \<open>cls\<close>: log the error, append it to \<open>error_messages\<close>, set
  \<open>current_status\<close> to \<^verbatim>\<open>ERROR\<close>.  The append reads \<^verbatim>\<open>state["error_messages"]\<close>
  with no default; an exception raised here leaves the method.
\<close>

definition except_block :: "string \<Rightarrow> string \<Rightarrow> string \<Rightarrow> DocumentState \<Rightarrow> exn \<Rightarrow> stage_result" where
  "except_block cls log_prefix error_prefix state e =
     (case log_action cls state (log_prefix @ str_exn e) of
        Inl r \<Rightarrow> Inl r
      | Inr state1 \<Rightarrow>
          (case py_append state1 ''error_messages'' (PyStr (error_prefix @ str_exn e)) of
             Inl r \<Rightarrow> Inl r
           | Inr state2 \<Rightarrow> Inr (state2(''current_status'' \<mapsto> PyStatus ERROR))))"

section \<open>Human supervision agent (src/agents/human_supervision_agent.py)\<close>

record ReviewFeedback =
  reviewer_id :: string
  reviewer_name :: string
  review_date :: nat
  approval_status :: string
  feedback :: string
  suggested_changes :: "string list"
  confidence_level :: real
  review_time_minutes :: int

text \<open>
  The methods of the agent that build the review package and the texts of a revision
  request are parameters, each of which may raise; \<open>review_clock\<close> is the reading of
  \<^verbatim>\<open>datetime.now()\<close>.
\<close>

record review_support =
  prepare_review_package :: "DocumentState \<Rightarrow> exn + unit"
  generate_revision_feedback :: "DocumentState \<Rightarrow> exn + string"
  generate_suggested_changes :: "DocumentState \<Rightarrow> exn + string list"
  review_clock :: nat

definition simulated_review :: "review_support \<Rightarrow> string \<Rightarrow> string \<Rightarrow> string list \<Rightarrow> real \<Rightarrow> ReviewFeedback" where
  "simulated_review helpers decision msg changes confidence =
     \<lparr>reviewer_id = ''simulated_reviewer_001'', reviewer_name = ''Revisor Simulado'',
      review_date = review_clock helpers, approval_status = decision, feedback = msg,
      suggested_changes = changes, confidence_level = confidence, review_time_minutes = 5\<rparr>"

text \<open>
  \<^verbatim>\<open>_process_human_review\<close> (lines 132 to 164).  The bound on \<open>revision_attempts\<close> is
  the literal 2 of line 146; the method does not read the configuration.  A score that
  is not a number makes a comparison of the method, at the latest \<^verbatim>\<open>min\<close>, raise
  \<^verbatim>\<open>TypeError\<close>; \<open>revision_attempts\<close> is compared only when the first test fails.
\<close>

definition process_human_review :: "review_support \<Rightarrow> DocumentState \<Rightarrow> exn + ReviewFeedback" where
  "process_human_review helpers state =
     (case (as_number (py_get state ''quality_score'' (PyFloat 0.0)),
            as_number (py_get state ''compliance_score'' (PyFloat 0.0))) of
        (Some quality_score, Some compliance_score) \<Rightarrow>
          if quality_score \<ge> 0.85 \<and> compliance_score \<ge> 0.85 then
            Inr (simulated_review helpers ''approved''
                   ''Documento aprovado. Conformidade e qualidade adequadas.'' []
                   (min quality_score compliance_score))
          else
            (case as_number (py_get state ''revision_attempts'' (PyInt 0)) of
               None \<Rightarrow> Inl (TypeError ''< not supported'')
             | Some revision_attempts \<Rightarrow>
                 if revision_attempts < 2 \<and> (quality_score < 0.8 \<or> compliance_score < 0.8) then
                   (case generate_revision_feedback helpers state of
                      Inl e \<Rightarrow> Inl e
                    | Inr msg \<Rightarrow>
                        (case generate_suggested_changes helpers state of
                           Inl e \<Rightarrow> Inl e
                         | Inr changes \<Rightarrow>
                             Inr (simulated_review helpers ''needs_revision'' msg changes
                                    (min quality_score compliance_score))))
                 else
                   Inr (simulated_review helpers ''rejected''
                          (''Documento rejeitado. M'' @ [CHR 0xFA] @ ''ltiplas tentativas de revis''
                             @ [CHR 0xE3] @ ''o sem sucesso.'') []
                          (min quality_score compliance_score)))
      | other \<Rightarrow> Inl (TypeError ''>= not supported''))"



section \<open>Quality agent (src/agents/quality_agent.py)\<close>

record QualityIssue =
  severity :: string
  category :: string
  issue_description :: string
  location :: string
  suggestion :: string

record QualityAssessment =
  overall_score :: real
  grammar_score :: real
  legal_score :: real
  structure_score :: real
  completeness_score :: real
  issues :: "QualityIssue list"
  quality_recommendations :: "string list"
  is_acceptable :: bool

text \<open>
  The text assessors of the agent work on regular expressions and are parameters; those
  that read the state may raise.
\<close>

record quality_checks =
  assess_grammar_quality :: "string \<Rightarrow> real"
  assess_legal_quality :: "string \<Rightarrow> DocumentState \<Rightarrow> exn + real"
  assess_structure_quality :: "string \<Rightarrow> DocumentState \<Rightarrow> exn + real"
  assess_completeness_quality :: "string \<Rightarrow> DocumentState \<Rightarrow> exn + real"
  identify_quality_issues :: "string \<Rightarrow> DocumentState \<Rightarrow> exn + QualityIssue list"
  generate_recommendations :: "QualityIssue list \<Rightarrow> real \<Rightarrow> string list"

definition bind_exn :: "exn + 'a \<Rightarrow> ('a \<Rightarrow> exn + 'b) \<Rightarrow> exn + 'b" where
  "bind_exn m f = (case m of Inl e \<Rightarrow> Inl e | Inr x \<Rightarrow> f x)"

text \<open>\<^verbatim>\<open>_assess_document_quality\<close> (lines 71 to 103).\<close>

definition assess_document_quality :: "quality_checks \<Rightarrow> DocumentState \<Rightarrow> exn + QualityAssessment" where
  "assess_document_quality chk state =
     (case state ''document_type'' of
        None \<Rightarrow> Inl (KeyError ''document_type'')
      | Some (PyDocType d) \<Rightarrow>
          (case py_get state ''generated_content'' (PyStr []) of
             PyStr content \<Rightarrow>
               (let grammar = assess_grammar_quality chk content in
                bind_exn (assess_legal_quality chk content state) (\<lambda>legal.
                bind_exn (assess_structure_quality chk content state) (\<lambda>structure.
                bind_exn (assess_completeness_quality chk content state) (\<lambda>completeness.
                  (let overall = (grammar + legal + structure + completeness) / 4 in
                   bind_exn (identify_quality_issues chk content state) (\<lambda>found.
                     Inr \<lparr>overall_score = overall, grammar_score = grammar,
                          legal_score = legal, structure_score = structure,
                          completeness_score = completeness, issues = found,
                          quality_recommendations = generate_recommendations chk found overall,
                          is_acceptable =
                            (overall \<ge> 0.8 \<and>
                             length (filter (\<lambda>i. severity i = ''critical'') found) = 0)\<rparr>))))))
           | other \<Rightarrow> Inl (TypeError ''expected string or bytes-like object''))
      | Some other \<Rightarrow> Inl (AttributeError (py_type_name other) ''value''))"

definition create_quality_checklist :: "QualityAssessment \<Rightarrow> pyval" where
  "create_quality_checklist assessment =
     PyDict [(''grammar_acceptable'', PyBool (grammar_score assessment \<ge> 0.8)),
             (''legal_acceptable'', PyBool (legal_score assessment \<ge> 0.8)),
             (''structure_acceptable'', PyBool (structure_score assessment \<ge> 0.8)),
             (''completeness_acceptable'', PyBool (completeness_score assessment \<ge> 0.8)),
             (''no_critical_issues'',
              PyBool (length (filter (\<lambda>i. severity i = ''critical'') (issues assessment)) = 0)),
             (''overall_acceptable'', PyBool (is_acceptable assessment))]"

definition issue_dict :: "QualityIssue \<Rightarrow> pyval" where
  "issue_dict i =
     PyDict [(''severity'', PyStr (severity i)), (''category'', PyStr (category i)),
             (''description'', PyStr (issue_description i)), (''location'', PyStr (location i)),
             (''suggestion'', PyStr (suggestion i))]"

text \<open>\<^verbatim>\<open>QualityAgent.execute\<close> (lines 41 to 69).\<close>

definition QualityAgent_try :: "quality_checks \<Rightarrow> stage_fn" where
  "QualityAgent_try chk state0 =
     (let state = state0(''current_status'' \<mapsto> PyStatus PROCESSING,
                         ''current_step'' \<mapsto> PyStr ''Quality Control'')
      in case assess_document_quality chk state of
           Inl e \<Rightarrow> Inl (e, state)
         | Inr assessment \<Rightarrow>
             (let state1 = state(''quality_score'' \<mapsto> PyFloat (overall_score assessment),
                                 ''quality_issues'' \<mapsto> PyList (map issue_dict (issues assessment)),
                                 ''quality_checklist'' \<mapsto> create_quality_checklist assessment)
              in if \<not> is_acceptable assessment then
                   (case py_add1 (py_get state1 ''revision_attempts'' (PyInt 0)) of
                      None \<Rightarrow> Inl (TypeError ''+ not supported'', state1)
                    | Some attempts \<Rightarrow>
                        log_action ''QualityAgent''
                          (state1(''revision_attempts'' \<mapsto> attempts,
                                  ''current_status'' \<mapsto> PyStatus QUALITY_CHECKED))
                          (''Documento requer revis'' @ [CHR 0xE3] @ ''o. Score: ''
                             @ format_2f (overall_score assessment)))
                 else
                   log_action ''QualityAgent''
                     (state1(''current_status'' \<mapsto> PyStatus QUALITY_CHECKED))
                     (''Qualidade aprovada. Score: '' @ format_2f (overall_score assessment))))"

definition QualityAgent_execute :: "quality_checks \<Rightarrow> stage_fn" where
  "QualityAgent_execute chk state =
     (case QualityAgent_try chk state of
        Inr state' \<Rightarrow> Inr state'
      | Inl (e, state') \<Rightarrow>
          except_block ''QualityAgent'' ''Erro no controle de qualidade: '' ''Quality Error: ''
            state' e)"

section \<open>OCR agent (src/agents/ocr_agent.py)\<close>

text \<open>
  The recognition engines and the text post-processing are parameters; the two
  processing methods re-raise what the engines raise.
\<close>

record ocr_backend =
  process_pdf :: "nat list \<Rightarrow> exn + string \<times> real"
  process_image :: "nat list \<Rightarrow> exn + string \<times> real"
  post_process_text :: "string \<Rightarrow> string"
  extract_structured_data :: "string \<Rightarrow> pyval"
  classify_document :: "string \<Rightarrow> string"

definition startswith :: "nat list \<Rightarrow> nat list \<Rightarrow> bool" where
  "startswith bs p = (take (length p) bs = p)"

definition detect_file_type :: "nat list \<Rightarrow> string" where
  "detect_file_type file_bytes =
     (if startswith file_bytes [0x25, 0x50, 0x44, 0x46] then ''pdf''
      else if startswith file_bytes [0xFF, 0xD8, 0xFF] then ''image''
      else if startswith file_bytes [0x89, 0x50, 0x4E, 0x47] then ''image''
      else if startswith file_bytes [0x47, 0x49, 0x46] then ''image''
      else if startswith file_bytes [0x42, 0x4D] then ''image''
      else ''unknown'')"

text \<open>\<^verbatim>\<open>OCRAgent.execute\<close> (lines 89 to 137).\<close>

definition OCRAgent_try :: "ocr_backend \<Rightarrow> stage_fn" where
  "OCRAgent_try eng state0 =
     (let state = state0(''current_status'' \<mapsto> PyStatus PROCESSING,
                         ''current_step'' \<mapsto> PyStr ''OCR Processing'')
      in if \<not> truthy (py_get state ''uploaded_file'' PyNone) then
           log_action ''OCRAgent'' state ''Nenhum arquivo para processar''
         else
           (case py_get state ''uploaded_file'' PyNone of
              PyBytes file_bytes \<Rightarrow>
                (let file_type = detect_file_type file_bytes;
                     state1 = state(''file_type'' \<mapsto> PyStr file_type)
                 in case (if file_type = ''pdf'' then process_pdf eng file_bytes
                          else if file_type \<in> set [''image''] then process_image eng file_bytes
                          else Inr (''Texto extra'' @ [CHR 0xED] @ ''do do documento de teste'', 0.85)) of
                      Inl e \<Rightarrow> Inl (e, state1)
                    | Inr (extracted_text, confidence) \<Rightarrow>
                        (let processed_text = post_process_text eng extracted_text;
                             extracted_data = extract_structured_data eng processed_text;
                             document_classification = classify_document eng processed_text
                         in log_action ''OCRAgent''
                              (state1(''ocr_text'' \<mapsto> PyStr processed_text,
                                      ''ocr_confidence'' \<mapsto> PyFloat confidence,
                                      ''extracted_data'' \<mapsto> extracted_data,
                                      ''document_classification'' \<mapsto> PyStr document_classification,
                                      ''current_status'' \<mapsto> PyStatus OCR_COMPLETE))
                              (''OCR conclu'' @ [CHR 0xED] @ ''do: '' @ str_nat (length processed_text)
                                 @ '' caracteres, confian'' @ [CHR 0xE7] @ ''a: ''
                                 @ format_2f confidence)))
            | PyStr s \<Rightarrow> Inl (TypeError ''startswith first arg must be str'', state)
            | other \<Rightarrow> Inl (AttributeError (py_type_name other) ''startswith'', state)))"

definition OCRAgent_execute :: "ocr_backend \<Rightarrow> stage_fn" where
  "OCRAgent_execute eng state =
     (case OCRAgent_try eng state of
        Inr state' \<Rightarrow> Inr state'
      | Inl (e, state') \<Rightarrow>
          (case except_block ''OCRAgent'' ''Erro no OCR: '' ''OCR Error: '' state' e of
             Inl r \<Rightarrow> Inl r
           | Inr state2 \<Rightarrow> Inr (state2(''ocr_confidence'' \<mapsto> PyFloat 0.0))))"

section \<open>Concrete inputs\<close>

text \<open>The inputs of Scenario A, with fixed identifiers and clock readings.\<close>

definition scenario_sources :: sources where
  "scenario_sources =
     \<lparr>uuid_workflow = ''w-1'', uuid_session = ''s-1'', uuid_document = ''d-1'',
      now_created = 0, now_updated = 0\<rparr>"

definition scenario_state :: DocumentState where
  "scenario_state =
     (case create_initial_state scenario_sources ''termo_consentimento'' ''Acme LLC''
             ''Collects emails for newsletter'' None None of
        Inr s \<Rightarrow> s | Inl e \<Rightarrow> Map.empty)"


definition always_two :: "string \<Rightarrow> string \<Rightarrow> string list" where
  "always_two pattern content = [''m'', ''m'']"

definition policy_state :: DocumentState where
  "policy_state = map_of
     [(''document_type'', PyDocType PRIVACY_POLICY),
      (''industry_sector'', PyStr ''geral''),
      (''generated_content'',
       PyStr (''LGPD LGPD controlador controlador finalidade finalidade ''
         @ ''consentimento consentimento direito direito prazo prazo DPO DPO ''
         @ ''ANPD ANPD claro claro completo completo''))]"

text \<open>
  Inputs for the stages.  \<open>review_stub\<close>, \<open>weak_checks\<close> and \<open>failing_backend\<close> fix the
  parameters: review helpers that succeed, assessors that score every document 0.5 and
  find no issue, and recognition engines that raise.  \<open>scored_state q c r\<close> is a state
  with the given scores and revision count; \<open>draft_state\<close> is a consent form with a
  generated text; \<open>pdf_state\<close> is the state of Scenario A created with an uploaded file
  that starts with the PDF signature.
\<close>

definition review_stub :: review_support where
  "review_stub =
     \<lparr>prepare_review_package = (\<lambda>s. Inr ()),
      generate_revision_feedback = (\<lambda>s. Inr ''Revisar''),
      generate_suggested_changes = (\<lambda>s. Inr []),
      review_clock = 0\<rparr>"

definition weak_checks :: quality_checks where
  "weak_checks =
     \<lparr>assess_grammar_quality = (\<lambda>content. 0.5),
      assess_legal_quality = (\<lambda>content s. Inr 0.5),
      assess_structure_quality = (\<lambda>content s. Inr 0.5),
      assess_completeness_quality = (\<lambda>content s. Inr 0.5),
      identify_quality_issues = (\<lambda>content s. Inr []),
      generate_recommendations = (\<lambda>found overall. [])\<rparr>"

definition failing_backend :: ocr_backend where
  "failing_backend =
     \<lparr>process_pdf = (\<lambda>b. Inl (Exception ''Unable to get page count'')),
      process_image = (\<lambda>b. Inl (Exception ''Unable to decode image'')),
      post_process_text = (\<lambda>t. t),
      extract_structured_data = (\<lambda>t. PyDict []),
      classify_document = (\<lambda>t. ''unknown'')\<rparr>"

definition scored_state :: "real \<Rightarrow> real \<Rightarrow> int \<Rightarrow> DocumentState" where
  "scored_state q c r = map_of
     [(''quality_score'', PyFloat q), (''compliance_score'', PyFloat c),
      (''revision_attempts'', PyInt r), (''processing_log'', PyList []),
      (''error_messages'', PyList [])]"

definition draft_state :: DocumentState where
  "draft_state = map_of
     [(''document_type'', PyDocType CONSENT_FORM),
      (''company_name'', PyStr ''Acme LLC''),
      (''generated_content'', PyStr ''Termo de consentimento''),
      (''processing_log'', PyList []),
      (''error_messages'', PyList [])]"

definition pdf_state :: DocumentState where
  "pdf_state =
     (case create_initial_state scenario_sources ''termo_consentimento'' ''Acme LLC''
             ''Collects emails for newsletter'' (Some [0x25, 0x50, 0x44, 0x46, 0x2D]) None of
        Inr s \<Rightarrow> s | Inl e \<Rightarrow> Map.empty)"


section \<open>Properties of the initial state\<close>

text \<open>
  Claim C4, as amended.  \<open>create_initial_state\<close> validates nothing: for every document
  type, company name and activity description, the empty string and types outside the
  closed set included, it succeeds and returns a state that carries the three arguments
  unchanged.
\<close>

theorem create_initial_state_never_fails:
  "\<exists>s. create_initial_state src dt cn ad uf ctx = Inr s
       \<and> s ''document_type'' = Some (PyStr dt)
       \<and> s ''company_name'' = Some (PyStr cn)
       \<and> s ''activity_description'' = Some (PyStr ad)"
  by (simp add: create_initial_state_def Let_def)

text \<open>
  Claim C4 as stated fails: a document type outside the closed set together with an empty
  company name and an empty activity description is accepted.
\<close>

theorem create_initial_state_accepts_invalid:
  "''bogus'' \<notin> set valid_types
   \<and> ''bogus'' \<notin> set (map DocumentType_value DocumentType_members)
   \<and> isl (create_initial_state scenario_sources ''bogus'' [] [] None None) = False"
  by (simp add: valid_types_def DocumentType_members_def create_initial_state_def Let_def)


text \<open>
  Claim C5, at the code.  For every input the state returned has \<open>processing_log = []\<close>
  and \<open>is_complete = False\<close>, but no key \<open>error_messages\<close> and no key
  \<open>revision_attempts\<close>: of the seventeen collection-valued fields that
  \<^verbatim>\<open>DocumentState\<close> declares, \<open>processing_log\<close> is an empty container and the other
  sixteen are absent.
\<close>

theorem create_initial_state_omits_error_messages:
  "\<exists>s. create_initial_state src dt cn ad uf ctx = Inr s
       \<and> s ''processing_log'' = Some (PyList [])
       \<and> s ''is_complete'' = Some (PyBool False)
       \<and> s ''error_messages'' = None
       \<and> s ''revision_attempts'' = None
       \<and> map (\<lambda>k. map_option empty_container (s k)) DocumentState_collection_fields
           = Some True # replicate 16 None"
  by (simp add: create_initial_state_def Let_def DocumentState_collection_fields_def
        eval_nat_numeral)

section \<open>Properties of the workflow\<close>

lemma run_agent_no_process:
  "agents key = Some a \<Longrightarrow> process a = None \<Longrightarrow>
   run_agent agents key s =
     s(''status'' \<mapsto> PyStatus ERROR,
       ''error'' \<mapsto> PyStr (str_exn (AttributeError (class_name a) ''process'')))"
  by (simp add: run_agent_def call_process_def)


lemma run_ocr_workflow:
  "run_ocr (DocumentWorkflow_agents ex pr) s =
     s(''status'' \<mapsto> PyStatus ERROR,
       ''error'' \<mapsto> PyStr (str_exn (AttributeError ''OCRAgent'' ''process'')))"
  unfolding run_ocr_def
  by (subst run_agent_no_process
        [where a = "(BaseAgent ''OCRAgent'')\<lparr>execute := Some (ex ''ocr'')\<rparr>"])
     (simp_all add: DocumentWorkflow_agents_def BaseAgent_def)

lemma graph_step_ocr_workflow:
  "graph_step (DocumentWorkflow_agents ex pr) ''ocr'' s =
     Inr (END, s(''status'' \<mapsto> PyStatus ERROR,
       ''error'' \<mapsto> PyStr (str_exn (AttributeError ''OCRAgent'' ''process''))))"
  by (simp add: graph_step_def nodes_def conditional_edges_def run_ocr_workflow
        should_continue_def Let_def)

lemma graph_invoke_workflow:
  "graph_invoke (DocumentWorkflow_agents ex pr) s =
     Inr ([''ocr''], s(''status'' \<mapsto> PyStatus ERROR,
       ''error'' \<mapsto> PyStr (str_exn (AttributeError ''OCRAgent'' ''process''))))"
  by (simp add: graph_invoke_def recursion_limit_def entry_point_def eval_nat_numeral
        graph_step_ocr_workflow)

lemma run_workflow:
  "run (DocumentWorkflow_agents ex pr) s =
     Inr (s(''status'' \<mapsto> PyStatus ERROR,
       ''error'' \<mapsto> PyStr (str_exn (AttributeError ''OCRAgent'' ''process''))))"
  by (simp add: run_def graph_invoke_workflow)

text \<open>
  Claim C2.  Whatever the initial state and whatever the bodies of the agents' methods,
  the compiled workflow runs the OCR node and nothing else: \<^verbatim>\<open>OCRAgent\<close> has no
  \<^verbatim>\<open>process\<close>, the handler of the node catches the \<^verbatim>\<open>AttributeError\<close>, stores
  \<^verbatim>\<open>ERROR\<close> under \<open>status\<close> and the message under \<open>error\<close>, the router answers
  \<open>error\<close> and the graph ends.  \<^verbatim>\<open>run\<close> returns that state.  Each of the eight agents
  named in the claim has an \<^verbatim>\<open>execute\<close> and no \<^verbatim>\<open>process\<close>, and \<^verbatim>\<open>BaseAgent\<close> has no
  \<^verbatim>\<open>process\<close> to inherit.
\<close>

theorem workflow_stops_at_ocr_with_error:
  "graph_invoke (DocumentWorkflow_agents ex pr) s =
     Inr ([''ocr''], s(''status'' \<mapsto> PyStatus ERROR,
       ''error'' \<mapsto> PyStr (str_exn (AttributeError ''OCRAgent'' ''process''))))
   \<and> run (DocumentWorkflow_agents ex pr) s =
     Inr (s(''status'' \<mapsto> PyStatus ERROR,
       ''error'' \<mapsto> PyStr (str_exn (AttributeError ''OCRAgent'' ''process''))))
   \<and> map (\<lambda>k. map_option process (DocumentWorkflow_agents ex pr k))
        [''ocr'', ''classifier'', ''research'', ''structure'', ''generator'', ''quality'',
         ''compliance'', ''human_supervision''] = replicate 8 (Some None)
   \<and> map (\<lambda>k. map_option (\<lambda>a. execute a = None) (DocumentWorkflow_agents ex pr k))
        [''ocr'', ''classifier'', ''research'', ''structure'', ''generator'', ''quality'',
         ''compliance'', ''human_supervision''] = replicate 8 (Some False)
   \<and> process (BaseAgent c) = None"
proof -
  have tbl':
    "map (\<lambda>k. map_option (\<lambda>a. execute a = None) (DocumentWorkflow_agents ex pr k))
        [''ocr'', ''classifier'', ''research'', ''structure'', ''generator'', ''quality'',
         ''compliance'', ''human_supervision''] = replicate 8 (Some False)"
    by (simp add: DocumentWorkflow_agents_def BaseAgent_def eval_nat_numeral)
  have tbl: "map (\<lambda>k. map_option process (DocumentWorkflow_agents ex pr k))
        [''ocr'', ''classifier'', ''research'', ''structure'', ''generator'', ''quality'',
         ''compliance'', ''human_supervision''] = replicate 8 (Some None)"
    by (simp add: DocumentWorkflow_agents_def BaseAgent_def eval_nat_numeral)
  show ?thesis
    using tbl tbl' by (simp add: run_workflow graph_invoke_workflow BaseAgent_def)
qed

text \<open>
  Claim C1, at the code.  On the state of Scenario A \<^verbatim>\<open>run\<close> does not raise, and the
  state it returns has \<^verbatim>\<open>ERROR\<close> under the key \<open>status\<close> but no key
  \<open>current_status\<close> at all; started from a state whose \<open>current_status\<close> is
  \<^verbatim>\<open>HUMAN_REVIEW\<close>, it returns a state whose \<open>current_status\<close> is still
  \<^verbatim>\<open>HUMAN_REVIEW\<close>.
\<close>

theorem run_leaves_current_status_non_terminal:
  "(\<exists>s'. run (DocumentWorkflow_agents ex pr) scenario_state = Inr s'
        \<and> s' ''status'' = Some (PyStatus ERROR)
        \<and> s' ''current_status'' = None)
   \<and> (\<exists>s'. run (DocumentWorkflow_agents ex pr)
                (scenario_state(''current_status'' \<mapsto> PyStatus HUMAN_REVIEW)) = Inr s'
        \<and> s' ''status'' = Some (PyStatus ERROR)
        \<and> s' ''current_status'' = Some (PyStatus HUMAN_REVIEW))"
  by (simp add: run_workflow scenario_state_def create_initial_state_def Let_def)

section \<open>Properties of the requirement scoring\<close>









text \<open>
  Claim C7, at the code.  On the privacy policy \<open>policy_state\<close> every requirement is
  found compliant, the weighted score is 1, the risk assessment is \<open>low\<close> and no
  requirement of critical risk is unresolved; the document is nevertheless judged not
  compliant, because the test counts the requirements of critical risk whatever their
  status, and the table of a privacy policy holds two.
\<close>

theorem validate_compliance_rejects_resolved_critical:
  "\<exists>v. validate_compliance always_two policy_state = Inr v
       \<and> overall_compliance_score v = 1
       \<and> risk_assessment v = ''low''
       \<and> filter (\<lambda>r. risk_level r = ''critical'' \<and> status r \<noteq> ''compliant'') (requirements v)
           = []
       \<and> map requirement_id (filter (\<lambda>r. risk_level r = ''critical'') (requirements v))
           = [''LGPD_005'', ''LGPD_007'']
       \<and> is_compliant v = False"
  by (simp add: validate_compliance_def policy_state_def py_get_def Let_def
        validate_lgpd_requirements_def validate_anpd_requirements_def
        validate_industry_requirements_def lgpd_base_requirements_def
        lgpd_privacy_policy_requirements_def anpd_requirements_def sector_requirements_def
        py_lower_def lower_char_def check_row_def check_requirement_def always_two_def
        calculate_requirement_score_def weight_of_def score_of_def weight_map_def
        status_score_def assess_compliance_risk_def)

section \<open>Properties of the stages\<close>
















text \<open>
  Claim C6, as amended.  Whenever the simulated review returns a decision, both scores
  are numbers \<open>q\<close> and \<open>c\<close>, and the decision is \<open>approved\<close> iff \<open>q \<ge> 0.85\<close> and
  \<open>c \<ge> 0.85\<close>; otherwise \<open>needs_revision\<close> iff \<open>revision_attempts\<close> is below the
  literal bound 2 and one of the scores is below 0.8; otherwise \<open>rejected\<close>.  It does
  return a decision on every state whose two scores and revision count are numbers,
  provided the two text helpers return.
\<close>

theorem human_review_decision:
  "(process_human_review helpers state = Inr fb \<longrightarrow>
      (\<exists>q c. as_number (py_get state ''quality_score'' (PyFloat 0.0)) = Some q
           \<and> as_number (py_get state ''compliance_score'' (PyFloat 0.0)) = Some c
           \<and> (approval_status fb = ''approved'' \<longleftrightarrow> q \<ge> 0.85 \<and> c \<ge> 0.85)
           \<and> (approval_status fb = ''needs_revision'' \<longleftrightarrow>
                \<not> (q \<ge> 0.85 \<and> c \<ge> 0.85)
                \<and> (\<exists>r. as_number (py_get state ''revision_attempts'' (PyInt 0)) = Some r
                         \<and> r < 2)
                \<and> (q < 0.8 \<or> c < 0.8))
           \<and> (approval_status fb = ''rejected'' \<longleftrightarrow>
                \<not> (q \<ge> 0.85 \<and> c \<ge> 0.85)
                \<and> \<not> ((\<exists>r. as_number (py_get state ''revision_attempts'' (PyInt 0)) = Some r
                            \<and> r < 2)
                       \<and> (q < 0.8 \<or> c < 0.8)))))
   \<and> (as_number (py_get state ''quality_score'' (PyFloat 0.0)) = Some q'
        \<and> as_number (py_get state ''compliance_score'' (PyFloat 0.0)) = Some c'
        \<and> as_number (py_get state ''revision_attempts'' (PyInt 0)) = Some r'
        \<and> generate_revision_feedback helpers state = Inr msg
        \<and> generate_suggested_changes helpers state = Inr changes
      \<longrightarrow> (\<exists>fb'. process_human_review helpers state = Inr fb'))"
proof -
  have a: "process_human_review helpers state = Inr fb \<longrightarrow>
      (\<exists>q c. as_number (py_get state ''quality_score'' (PyFloat 0.0)) = Some q
           \<and> as_number (py_get state ''compliance_score'' (PyFloat 0.0)) = Some c
           \<and> (approval_status fb = ''approved'' \<longleftrightarrow> q \<ge> 0.85 \<and> c \<ge> 0.85)
           \<and> (approval_status fb = ''needs_revision'' \<longleftrightarrow>
                \<not> (q \<ge> 0.85 \<and> c \<ge> 0.85)
                \<and> (\<exists>r. as_number (py_get state ''revision_attempts'' (PyInt 0)) = Some r
                         \<and> r < 2)
                \<and> (q < 0.8 \<or> c < 0.8))
           \<and> (approval_status fb = ''rejected'' \<longleftrightarrow>
                \<not> (q \<ge> 0.85 \<and> c \<ge> 0.85)
                \<and> \<not> ((\<exists>r. as_number (py_get state ''revision_attempts'' (PyInt 0)) = Some r
                            \<and> r < 2)
                       \<and> (q < 0.8 \<or> c < 0.8))))"
    by (auto simp add: process_human_review_def simulated_review_def
          split: option.splits if_splits sum.splits)
  have b: "as_number (py_get state ''quality_score'' (PyFloat 0.0)) = Some q'
        \<and> as_number (py_get state ''compliance_score'' (PyFloat 0.0)) = Some c'
        \<and> as_number (py_get state ''revision_attempts'' (PyInt 0)) = Some r'
        \<and> generate_revision_feedback helpers state = Inr msg
        \<and> generate_suggested_changes helpers state = Inr changes
      \<longrightarrow> (\<exists>fb'. process_human_review helpers state = Inr fb')"
    by (simp add: process_human_review_def)
  from a b show ?thesis by blast
qed

theorem human_review_decision_witness:
  "process_human_review review_stub (scored_state 0.5 0.9 1) =
      Inr (simulated_review review_stub ''needs_revision'' ''Revisar'' [] 0.5)
   \<and> (\<exists>q c. as_number (py_get (scored_state 0.5 0.9 1) ''quality_score'' (PyFloat 0.0)) = Some q
         \<and> q < 0.8
         \<and> as_number (py_get (scored_state 0.5 0.9 1) ''compliance_score'' (PyFloat 0.0)) = Some c)"
proof -
  have h: "process_human_review review_stub (scored_state 0.5 0.9 1) =
      Inr (simulated_review review_stub ''needs_revision'' ''Revisar'' [] 0.5)"
    by (simp add: process_human_review_def scored_state_def py_get_def review_stub_def)
  from human_review_decision
         [of review_stub "scored_state 0.5 0.9 1"
             "simulated_review review_stub ''needs_revision'' ''Revisar'' [] 0.5"] h
  show ?thesis
    by (auto simp add: simulated_review_def scored_state_def py_get_def)
qed

text \<open>
  Claim C6 as stated fails at the configured maximum: with the variable unset the
  configured maximum is 3, a state with two revision attempts and both scores at 0.5 is
  below it and has a score below 0.8, and the decision is \<open>rejected\<close>, not
  \<open>needs_revision\<close>.
\<close>

theorem human_review_ignores_configured_maximum:
  "of_int 2 < (of_int (MAX_REVISION_ATTEMPTS None) :: real)
   \<and> as_number (py_get (scored_state 0.5 0.5 2) ''revision_attempts'' (PyInt 0)) = Some (of_int 2)
   \<and> as_number (py_get (scored_state 0.5 0.5 2) ''quality_score'' (PyFloat 0.0)) = Some 0.5
   \<and> (0.5 :: real) < 0.8
   \<and> map_sum id approval_status (process_human_review review_stub (scored_state 0.5 0.5 2))
        = Inr ''rejected''"
  by (simp add: MAX_REVISION_ATTEMPTS_def process_human_review_def scored_state_def py_get_def
        review_stub_def simulated_review_def)








text \<open>
  Claim C9, at the code.  The quality stage itself does what the claim says: on
  \<open>draft_state\<close>, assessed at 0.5 and so not acceptable, it returns with
  \<open>current_status\<close> \<^verbatim>\<open>QUALITY_CHECKED\<close> and \<open>revision_attempts\<close> raised from absent to
  1.  The orchestrator does not proceed to the compliance stage.  The router answers
  \<open>continue\<close> on the state the stage returns, and the path map of the quality node holds
  only \<open>compliance\<close> and \<open>error\<close>; and the quality node of the workflow as built never
  runs the stage: \<^verbatim>\<open>QualityAgent\<close> has no \<^verbatim>\<open>process\<close>, the node stores \<^verbatim>\<open>ERROR\<close>
  and the graph ends there.
\<close>

theorem quality_node_never_reaches_compliance:
  "(\<exists>s'. QualityAgent_execute weak_checks draft_state = Inr s'
        \<and> s' ''current_status'' = Some (PyStatus QUALITY_CHECKED)
        \<and> draft_state ''revision_attempts'' = None
        \<and> s' ''revision_attempts'' = Some (PyInt 1)
        \<and> should_continue s' = ''continue''
        \<and> Option.bind (conditional_edges ''quality'')
             (\<lambda>path_map. map_of path_map (should_continue s')) = None)
   \<and> conditional_edges ''quality'' = Some [(''compliance'', Node ''compliance''), (''error'', END)]
   \<and> graph_step (DocumentWorkflow_agents ex pr) ''quality'' s =
       Inr (END, s(''status'' \<mapsto> PyStatus ERROR,
         ''error'' \<mapsto> PyStr (str_exn (AttributeError ''QualityAgent'' ''process''))))"
proof -
  have a: "\<exists>s'. QualityAgent_execute weak_checks draft_state = Inr s'
        \<and> s' ''current_status'' = Some (PyStatus QUALITY_CHECKED)
        \<and> draft_state ''revision_attempts'' = None
        \<and> s' ''revision_attempts'' = Some (PyInt 1)
        \<and> should_continue s' = ''continue''
        \<and> Option.bind (conditional_edges ''quality'')
             (\<lambda>path_map. map_of path_map (should_continue s')) = None"
    by (simp add: QualityAgent_execute_def QualityAgent_try_def assess_document_quality_def
          weak_checks_def draft_state_def py_get_def bind_exn_def log_action_def py_append_def
          should_continue_def conditional_edges_def Let_def)
  have b: "conditional_edges ''quality'' =
             Some [(''compliance'', Node ''compliance''), (''error'', END)]"
    by (simp add: conditional_edges_def)
  have q: "run_quality (DocumentWorkflow_agents ex pr) s =
     s(''status'' \<mapsto> PyStatus ERROR,
       ''error'' \<mapsto> PyStr (str_exn (AttributeError ''QualityAgent'' ''process'')))"
    unfolding run_quality_def
    by (subst run_agent_no_process
          [where a = "(BaseAgent ''QualityAgent'')\<lparr>execute := Some (ex ''quality'')\<rparr>"])
       (simp_all add: DocumentWorkflow_agents_def BaseAgent_def)
  have c: "graph_step (DocumentWorkflow_agents ex pr) ''quality'' s =
       Inr (END, s(''status'' \<mapsto> PyStatus ERROR,
         ''error'' \<mapsto> PyStr (str_exn (AttributeError ''QualityAgent'' ''process''))))"
    by (simp add: graph_step_def nodes_def conditional_edges_def q should_continue_def Let_def)
  from a b c show ?thesis by blast
qed

text \<open>
  Claim C3, at the code.  On \<open>pdf_state\<close>, with an engine that raises, the OCR stage does
  not return a state: its own \<^verbatim>\<open>except\<close> block raises \<^verbatim>\<open>KeyError\<close>, because the
  initial state has no \<open>error_messages\<close>.  On the same state with \<open>error_messages\<close>
  present the stage returns with \<open>current_status\<close> \<^verbatim>\<open>ERROR\<close> and one error message,
  but the router, which reads \<open>status\<close>, does not answer \<open>error\<close> on that state.
\<close>

theorem ocr_stage_raises_on_initial_state:
  "(\<exists>s'. OCRAgent_execute failing_backend pdf_state = Inl (KeyError ''error_messages'', s'))
   \<and> (\<exists>s'. OCRAgent_execute failing_backend (pdf_state(''error_messages'' \<mapsto> PyList [])) = Inr s'
         \<and> s' ''current_status'' = Some (PyStatus ERROR)
         \<and> s' ''error_messages'' = Some (PyList [PyStr ''OCR Error: Unable to get page count''])
         \<and> should_continue s' = ''end'')"
  by (simp add: OCRAgent_execute_def OCRAgent_try_def except_block_def log_action_def
        py_append_def failing_backend_def pdf_state_def create_initial_state_def opt_bytes_def
        py_get_def detect_file_type_def startswith_def should_continue_def Let_def)

end
